theory Spec2Isabelle
  imports Main "HOL-Library.AList"
begin

section \<open>Values, errors and strings\<close>

text \<open>
  The client of \<^verbatim>\<open>hashrateindex.py\<close> and the resolvers of \<^verbatim>\<open>resolvers.py\<close>,
  as HOL functions. A Python \<^verbatim>\<open>str\<close> is a \<open>string\<close>, read as the UTF-8 bytes of its
  text; \<^verbatim>\<open>bytes\<close> is a \<open>string\<close> too. The values that travel through the client
  (arguments, GraphQL variables, decoded JSON) are one datatype; a \<^verbatim>\<open>dict\<close> is an
  association list in insertion order, looked up with \<open>map_of\<close>.
\<close>

datatype json =
    JNull
  | JBool bool
  | JInt int
  | JFloat int int  \<comment> \<open>a float, kept as mantissa and exponent; the client never computes with it\<close>
  | JStr string
  | JArr "json list"
  | JObj "(string \<times> json) list"

text \<open>
  Every \<^verbatim>\<open>raise\<close> of the source is a value. Only \<^verbatim>\<open>Exception\<close> carries its message and
  \<^verbatim>\<open>KeyError\<close> its key. \<open>NotModelled\<close> is no exception of Python: it stands for an outcome
  that this model does not describe (see \<open>format_scan\<close> and \<open>getattr_API\<close>).
\<close>

datatype error =
    Exception string
  | KeyError string
  | TypeError
  | AttributeError
  | ValueError
  | UnicodeDecodeError
  | JSONDecodeError
  | TransportError
  | NotModelled

type_synonym 'a result = "error + 'a"

subsection \<open>\<^verbatim>\<open>str.lower\<close>, \<^verbatim>\<open>str.isdigit\<close>, \<^verbatim>\<open>int\<close>, \<^verbatim>\<open>str\<close>, \<^verbatim>\<open>str.split\<close>\<close>

text \<open>
  \<open>lower\<close> is modelled on ASCII: it maps \<^verbatim>\<open>A\<close>..\<^verbatim>\<open>Z\<close> to \<^verbatim>\<open>a\<close>..\<^verbatim>\<open>z\<close> and leaves every
  other byte alone. Python also lowers capitals outside ASCII. The client compares
  \<open>lower\<close> with \<^verbatim>\<open>btc\<close> and \<^verbatim>\<open>usd\<close> only, and no character outside \<^verbatim>\<open>A\<close>..\<^verbatim>\<open>Z\<close> has a
  lower-case form that contains one of these letters, so that comparison has Python's
  answer on every string.
\<close>

definition lower_char :: "char \<Rightarrow> char" where
  "lower_char c =
     (let n = (of_char c :: nat) in if 65 \<le> n \<and> n \<le> 90 then char_of (n + 32) else c)"

definition lower :: "string \<Rightarrow> string" where
  "lower s = map lower_char s"

text \<open>
  \<^verbatim>\<open>str.isdigit\<close> and \<^verbatim>\<open>int\<close> look at characters, not bytes. \<open>code_points\<close> reads the
  UTF-8 bytes of a text back into its code points (\<open>None\<close> on bytes that are no text).
  The two tables are those of Unicode 14.0, which CPython 3.11 carries: the runs of
  decimal digits, each a multiple of ten characters long and counting from zero, and the
  further characters that are digits without being decimal (superscripts, circled digits
  and the like). \<^verbatim>\<open>isdigit\<close> accepts both kinds, \<^verbatim>\<open>int\<close> reads decimal digits only.
\<close>

fun code_points :: "nat list \<Rightarrow> nat list option" where
  "code_points [] = Some []"
| "code_points (a # bs) =
     (if a < 128 then map_option (Cons a) (code_points bs)
      else if 194 \<le> a \<and> a \<le> 223 then
        (case bs of
           b # r \<Rightarrow>
             if 128 \<le> b \<and> b \<le> 191
             then map_option (Cons ((a - 192) * 64 + (b - 128))) (code_points r)
             else None
         | _ \<Rightarrow> None)
      else if 224 \<le> a \<and> a \<le> 239 then
        (case bs of
           b # c # r \<Rightarrow>
             if (if a = 224 then 160 \<le> b \<and> b \<le> 191
                 else if a = 237 then 128 \<le> b \<and> b \<le> 159
                 else 128 \<le> b \<and> b \<le> 191) \<and> 128 \<le> c \<and> c \<le> 191
             then map_option (Cons ((a - 224) * 4096 + (b - 128) * 64 + (c - 128)))
                    (code_points r)
             else None
         | _ \<Rightarrow> None)
      else if 240 \<le> a \<and> a \<le> 244 then
        (case bs of
           b # c # d # r \<Rightarrow>
             if (if a = 240 then 144 \<le> b \<and> b \<le> 191
                 else if a = 244 then 128 \<le> b \<and> b \<le> 143
                 else 128 \<le> b \<and> b \<le> 191) \<and> 128 \<le> c \<and> c \<le> 191 \<and> 128 \<le> d \<and> d \<le> 191
             then map_option
                    (Cons ((a - 240) * 262144 + (b - 128) * 4096 + (c - 128) * 64 + (d - 128)))
                    (code_points r)
             else None
         | _ \<Rightarrow> None)
      else None)"

definition decimal_runs :: "(nat \<times> nat) list" where
  "decimal_runs =
     [(48, 57), (1632, 1641), (1776, 1785), (1984, 1993), (2406, 2415), (2534, 2543),
      (2662, 2671), (2790, 2799), (2918, 2927), (3046, 3055), (3174, 3183), (3302, 3311),
      (3430, 3439), (3558, 3567), (3664, 3673), (3792, 3801), (3872, 3881), (4160, 4169),
      (4240, 4249), (6112, 6121), (6160, 6169), (6470, 6479), (6608, 6617), (6784, 6793),
      (6800, 6809), (6992, 7001), (7088, 7097), (7232, 7241), (7248, 7257), (42528, 42537),
      (43216, 43225), (43264, 43273), (43472, 43481), (43504, 43513), (43600, 43609),
      (44016, 44025), (65296, 65305), (66720, 66729), (68912, 68921), (69734, 69743),
      (69872, 69881), (69942, 69951), (70096, 70105), (70384, 70393), (70736, 70745),
      (70864, 70873), (71248, 71257), (71360, 71369), (71472, 71481), (71904, 71913),
      (72016, 72025), (72784, 72793), (73040, 73049), (73120, 73129), (92768, 92777),
      (92864, 92873), (93008, 93017), (120782, 120831), (123200, 123209), (123632, 123641),
      (125264, 125273), (130032, 130041)]"

definition other_digits :: "(nat \<times> nat) list" where
  "other_digits =
     [(178, 179), (185, 185), (4969, 4977), (6618, 6618), (8304, 8304), (8308, 8313),
      (8320, 8329), (9312, 9320), (9332, 9340), (9352, 9360), (9450, 9450), (9461, 9469),
      (9471, 9471), (10102, 10110), (10112, 10120), (10122, 10130), (68160, 68163),
      (69216, 69224), (69714, 69722), (127232, 127242)]"

definition in_run :: "nat \<Rightarrow> nat \<times> nat \<Rightarrow> bool" where
  "in_run c r = (fst r \<le> c \<and> c \<le> snd r)"

definition decimal_cp :: "nat \<Rightarrow> bool" where
  "decimal_cp c = list_ex (in_run c) decimal_runs"

definition digit_cp :: "nat \<Rightarrow> bool" where
  "digit_cp c = (list_ex (in_run c) decimal_runs \<or> list_ex (in_run c) other_digits)"

definition decimal_value :: "nat \<Rightarrow> nat" where
  \<comment> \<open>the value of a decimal digit: its place in its run, modulo ten\<close>
  "decimal_value c =
     (case find (in_run c) decimal_runs of None \<Rightarrow> 0 | Some r \<Rightarrow> (c - fst r) mod 10)"

definition isdigit :: "string \<Rightarrow> bool" where
  \<comment> \<open>\<^verbatim>\<open>arg.isdigit()\<close>: at least one character, and every character a digit\<close>
  "isdigit s =
     (case code_points (map of_char s) of
        None \<Rightarrow> False
      | Some cps \<Rightarrow> cps \<noteq> [] \<and> list_all digit_cp cps)"

definition int_max_str_digits :: nat where
  \<comment> \<open>CPython's default limit on the number of digits \<^verbatim>\<open>int\<close> converts\<close>
  "int_max_str_digits = 4300"

definition decimal_number :: "nat list \<Rightarrow> int" where
  "decimal_number cps = foldl (\<lambda>a c. 10 * a + int (decimal_value c)) 0 cps"

definition py_int :: "string \<Rightarrow> int result" where
  \<comment> \<open>\<^verbatim>\<open>int(arg)\<close> on a string that passed \<^verbatim>\<open>isdigit\<close>, so without sign, blank or underscore:
      a \<^verbatim>\<open>ValueError\<close> on a digit that is not decimal and on more digits than the limit\<close>
  "py_int s =
     (case code_points (map of_char s) of
        None \<Rightarrow> Inl ValueError
      | Some cps \<Rightarrow>
          if cps = [] \<or> \<not> list_all decimal_cp cps then Inl ValueError
          else if int_max_str_digits < length cps then Inl ValueError
          else Inr (decimal_number cps))"

fun str_nat :: "nat \<Rightarrow> string" where
  "str_nat n =
     (if n < 10 then [char_of (48 + n)] else str_nat (n div 10) @ [char_of (48 + n mod 10)])"

definition str_int :: "int \<Rightarrow> string" where
  \<comment> \<open>\<^verbatim>\<open>str(n)\<close> of an integer\<close>
  "str_int i = (if i < 0 then CHR ''-'' # str_nat (nat (- i)) else str_nat (nat i))"

fun split_acc :: "char \<Rightarrow> string \<Rightarrow> string \<Rightarrow> string list" where
  "split_acc sep acc [] = [rev acc]"
| "split_acc sep acc (c # cs) =
     (if c = sep then rev acc # split_acc sep [] cs else split_acc sep (c # acc) cs)"

definition split :: "string \<Rightarrow> char \<Rightarrow> string list" where
  \<comment> \<open>\<^verbatim>\<open>s.split(sep)\<close> with a one-character separator\<close>
  "split s sep = split_acc sep [] s"

subsection \<open>\<^verbatim>\<open>bytes.decode()\<close>\<close>

text \<open>
  \<^verbatim>\<open>decode()\<close> is strict UTF-8: well-formed input gives the text (here the same bytes),
  anything else raises \<^verbatim>\<open>UnicodeDecodeError\<close>. \<open>utf8_valid\<close> follows the table of
  well-formed byte sequences.
\<close>

definition cont :: "nat \<Rightarrow> bool" where
  "cont b = (128 \<le> b \<and> b \<le> 191)"

fun utf8_valid :: "nat list \<Rightarrow> bool" where
  "utf8_valid [] = True"
| "utf8_valid (a # bs) =
     (if a < 128 then utf8_valid bs
      else if 194 \<le> a \<and> a \<le> 223 then
        (case bs of b # r \<Rightarrow> cont b \<and> utf8_valid r | _ \<Rightarrow> False)
      else if 224 \<le> a \<and> a \<le> 239 then
        (case bs of b # c # r \<Rightarrow>
           (if a = 224 then 160 \<le> b \<and> b \<le> 191
            else if a = 237 then 128 \<le> b \<and> b \<le> 159
            else cont b) \<and> cont c \<and> utf8_valid r
         | _ \<Rightarrow> False)
      else if 240 \<le> a \<and> a \<le> 244 then
        (case bs of b # c # d # r \<Rightarrow>
           (if a = 240 then 144 \<le> b \<and> b \<le> 191
            else if a = 244 then 128 \<le> b \<and> b \<le> 143
            else cont b) \<and> cont c \<and> cont d \<and> utf8_valid r
         | _ \<Rightarrow> False)
      else False)"

definition decode :: "string \<Rightarrow> string result" where
  "decode bs = (if utf8_valid (map of_char bs) then Inr bs else Inl UnicodeDecodeError)"

subsection \<open>\<^verbatim>\<open>str.format\<close> with keyword arguments\<close>

text \<open>
  The scanner copies literal text, turns \<^verbatim>\<open>{{\<close> and \<^verbatim>\<open>}}\<close> into single braces and
  replaces \<^verbatim>\<open>{name}\<close> by the keyword argument of that name. The first argument is
  \<open>None\<close> in literal text and \<open>Some acc\<close> inside a replacement field, \<open>acc\<close> being
  the field read so far, reversed. A lone brace is Python's \<^verbatim>\<open>ValueError\<close>; a field that
  is not the plain name of a keyword argument (positional fields, conversions, format
  specifications, unknown names) is outside the model.
\<close>

fun format_scan :: "string option \<Rightarrow> string \<Rightarrow> (string \<times> string) list \<Rightarrow> string result" where
  "format_scan None [] kw = Inr []"
| "format_scan (Some acc) [] kw = Inl ValueError"
| "format_scan None (c # cs) kw =
     (if c = CHR ''{'' then
        (case cs of
           d # r \<Rightarrow>
             (if d = CHR ''{'' then map_sum id (Cons CHR ''{'') (format_scan None r kw)
              else format_scan (Some []) cs kw)
         | [] \<Rightarrow> Inl ValueError)
      else if c = CHR ''}'' then
        (case cs of
           d # r \<Rightarrow>
             (if d = CHR ''}'' then map_sum id (Cons CHR ''}'') (format_scan None r kw)
              else Inl ValueError)
         | [] \<Rightarrow> Inl ValueError)
      else map_sum id (Cons c) (format_scan None cs kw))"
| "format_scan (Some acc) (c # cs) kw =
     (if c = CHR ''}'' then
        (case map_of kw (rev acc) of
           None \<Rightarrow> Inl NotModelled
         | Some v \<Rightarrow> map_sum id (append v) (format_scan None cs kw))
      else format_scan (Some (c # acc)) cs kw)"

definition format :: "string \<Rightarrow> (string \<times> string) list \<Rightarrow> string result" where
  "format template kw = format_scan None template kw"

section \<open>The client: \<^verbatim>\<open>class API\<close>\<close>

record api =
  host :: string
  key :: string
  "method" :: string
  verbose :: bool

text \<open>
  What \<^verbatim>\<open>requests\<close> is given and what it gives back. \<open>rq_data\<close> is the value
  handed to \<^verbatim>\<open>json.dumps\<close>, before serialisation. A response is what the client reads
  of it: \<open>json_value\<close> is what \<^verbatim>\<open>response.json()\<close> returns, \<open>None\<close> when it
  raises because the body is not JSON.
\<close>

record http_request =
  rq_method :: string
  rq_url :: string
  rq_headers :: "(string \<times> string) list"
  rq_data :: json

record response =
  status_code :: int
  reason :: string
  content :: string
  json_value :: "json option"

text \<open>
  The world outside the process: the transport (\<^verbatim>\<open>Session.request\<close>, which returns a
  response or raises), the requests issued so far, and what \<^verbatim>\<open>logging.info\<close> has
  recorded.
\<close>

record world =
  transport :: "http_request \<Rightarrow> response result"
  sent :: "http_request list"
  logged :: "json list"

definition build_request :: "api \<Rightarrow> json \<Rightarrow> json \<Rightarrow> http_request" where
  "build_request self query params =
     \<lparr>rq_method = method self, rq_url = host self,
      rq_headers = [(''Content-Type'', ''application/json''), (''x-hi-api-key'', key self)],
      rq_data = JObj [(''query'', query), (''variables'', params)]\<rparr>"

definition request :: "api \<Rightarrow> json \<Rightarrow> json \<Rightarrow> world \<Rightarrow> json result \<times> world" where
  "request self query params w =
     (let w1 = (if verbose self then w\<lparr>logged := logged w @ [query]\<rparr> else w);
          rq = build_request self query params;
          w2 = w1\<lparr>sent := sent w1 @ [rq]\<rparr>
      in case transport w rq of
           Inl e \<Rightarrow> (Inl e, w2)
         | Inr response \<Rightarrow>
             if status_code response = 200 then
               (case json_value response of
                  None \<Rightarrow> (Inl JSONDecodeError, w2)
                | Some j \<Rightarrow> (Inr j, w2))
             else if content response \<noteq> [] then
               (case decode (content response) of
                  Inl e \<Rightarrow> (Inl e, w2)
                | Inr text \<Rightarrow>
                    (Inl (Exception (str_int (status_code response) @ '': '' @ reason response
                                     @ '': '' @ text)), w2))
             else
               (Inl (Exception (str_int (status_code response) @ '': '' @ reason response)), w2))"

subsection \<open>The operations\<close>

definition bitcoin_overview_query :: string where
  "bitcoin_overview_query =
     ''query bitcoinOverviews($last: Int!) {bitcoinOverviews(last: $last) {\<newline>'' @
     ''            nodes{\<newline>'' @
     ''                timestamp\<newline>'' @
     ''                hashpriceUsd\<newline>'' @
     ''                networkHashrate7D\<newline>'' @
     ''                networkDiff\<newline>'' @
     ''                estDiffAdj\<newline>'' @
     ''                coinbaseRewards24H\<newline>'' @
     ''                feesBlocks24H\<newline>'' @
     ''                marketcap\<newline>'' @
     ''                nextHalvingCount\<newline>'' @
     ''                nextHalvingDate\<newline>'' @
     ''                txRateAvg7D\<newline>'' @
     ''            }\<newline>'' @
     ''        }}''"

definition get_bitcoin_overview :: "api \<Rightarrow> world \<Rightarrow> json result \<times> world" where
  "get_bitcoin_overview self w =
     request self (JStr bitcoin_overview_query) (JObj [(''last'', JInt 1)]) w"

definition py_lower :: "json \<Rightarrow> string result" where
  \<comment> \<open>\<^verbatim>\<open>currency.lower()\<close>: only a \<^verbatim>\<open>str\<close> has the method\<close>
  "py_lower v = (case v of JStr s \<Rightarrow> Inr (lower s) | _ \<Rightarrow> Inl AttributeError)"

definition hashprice_template :: string where
  "hashprice_template =
     ''query get_hashprice($inputInterval: ChartsInterval!, $first: Int) {{\<newline>'' @
     ''            getHashprice(inputInterval: $inputInterval, first: $first) {{\<newline>'' @
     ''                nodes {{\<newline>'' @
     ''                    timestamp\<newline>'' @
     ''                    {field}\<newline>'' @
     ''                }}\<newline>'' @
     ''            }}\<newline>'' @
     ''        }}''"

definition get_hashprice :: "api \<Rightarrow> json \<Rightarrow> json \<Rightarrow> world \<Rightarrow> json result \<times> world" where
  "get_hashprice self inputInterval currency w =
     (case py_lower currency of
        Inl e \<Rightarrow> (Inl e, w)
      | Inr c \<Rightarrow>
          if c \<notin> set [''btc'', ''usd''] then (Inl (Exception ''Invalid currency input''), w)
          else
            (let field = c @ ''Hashprice'' in
             case format hashprice_template [(''field'', field)] of
               Inl e \<Rightarrow> (Inl e, w)
             | Inr query \<Rightarrow>
                 request self (JStr query)
                   (JObj [(''inputInterval'', inputInterval), (''first'', JInt 10000)]) w))"

definition network_hashrate_query :: string where
  "network_hashrate_query =
     ''query get_network_hashrate($inputInterval: ChartsInterval!, $first: Int) {\<newline>'' @
     ''            getNetworkHashrate(inputInterval: $inputInterval, first: $first) {\<newline>'' @
     ''                nodes {\<newline>'' @
     ''                    timestamp\<newline>'' @
     ''                    networkHashrate\<newline>'' @
     ''                }\<newline>'' @
     ''            }\<newline>'' @
     ''        }''"

definition get_network_hashrate :: "api \<Rightarrow> json \<Rightarrow> world \<Rightarrow> json result \<times> world" where
  "get_network_hashrate self inputInterval w =
     request self (JStr network_hashrate_query)
       (JObj [(''inputInterval'', inputInterval), (''first'', JInt 10000)]) w"

subsection \<open>Subscripts and deletion on decoded JSON\<close>

definition py_getitem :: "json \<Rightarrow> string \<Rightarrow> json result" where
  \<comment> \<open>\<^verbatim>\<open>v[k]\<close> with a string key: a dict looks the key up, every other value raises \<^verbatim>\<open>TypeError\<close>\<close>
  "py_getitem v k =
     (case v of
        JObj kvs \<Rightarrow> (case map_of kvs k of None \<Rightarrow> Inl (KeyError k) | Some x \<Rightarrow> Inr x)
      | _ \<Rightarrow> Inl TypeError)"

definition py_delitem :: "json \<Rightarrow> string \<Rightarrow> json result" where
  \<comment> \<open>\<^verbatim>\<open>del v[k]\<close> with a string key, returning the value as mutated\<close>
  "py_delitem v k =
     (case v of
        JObj kvs \<Rightarrow>
          (case map_of kvs k of None \<Rightarrow> Inl (KeyError k) | Some x \<Rightarrow> Inr (JObj (AList.delete k kvs)))
      | _ \<Rightarrow> Inl TypeError)"

text \<open>
  The loop \<^verbatim>\<open>for element in ...: del element["price"]\<close> mutates the elements in place and
  stops at the first deletion that raises. The model returns the error, if any, together
  with the elements as the loop left them.
\<close>

fun del_price_loop :: "json list \<Rightarrow> error option \<times> json list" where
  "del_price_loop [] = (None, [])"
| "del_price_loop (element # rest) =
     (case py_delitem element ''price'' of
        Inl e \<Rightarrow> (Some e, element # rest)
      | Inr element' \<Rightarrow>
          (case del_price_loop rest of (r, rest') \<Rightarrow> (r, element' # rest')))"

definition del_price_iter :: "json \<Rightarrow> error option \<times> json" where
  \<comment> \<open>the \<^verbatim>\<open>for\<close> statement over any value: a list gives its elements, a dict its keys and a
      \<^verbatim>\<open>str\<close> its characters (strings, on which \<^verbatim>\<open>del\<close> raises), nothing else is iterable\<close>
  "del_price_iter payload =
     (case payload of
        JArr elements \<Rightarrow> (case del_price_loop elements of (r, elements') \<Rightarrow> (r, JArr elements'))
      | JObj kvs \<Rightarrow> (if kvs = [] then None else Some TypeError, payload)
      | JStr s \<Rightarrow> (if s = [] then None else Some TypeError, payload)
      | _ \<Rightarrow> (Some TypeError, payload))"

fun put_path :: "json \<Rightarrow> string list \<Rightarrow> json \<Rightarrow> json" where
  \<comment> \<open>the envelope with the value under a path of keys replaced\<close>
  "put_path v [] new = new"
| "put_path (JObj kvs) (k # ks) new =
     (case map_of kvs k of
        None \<Rightarrow> JObj kvs
      | Some x \<Rightarrow> JObj (AList.update k (put_path x ks new) kvs))"
| "put_path v (k # ks) new = v"

definition strip_price :: "json \<Rightarrow> error option \<times> json" where
  \<comment> \<open>lines 219 and 220: the error raised, if any, and the envelope as it then is\<close>
  "strip_price result =
     (case py_getitem result ''data'' of
        Inl e \<Rightarrow> (Some e, result)
      | Inr d \<Rightarrow>
          (case py_getitem d ''getChartBySlug'' of
             Inl e \<Rightarrow> (Some e, result)
           | Inr c \<Rightarrow>
               (case py_getitem c ''data'' of
                  Inl e \<Rightarrow> (Some e, result)
                | Inr payload \<Rightarrow>
                    (case del_price_iter payload of
                       (r, payload') \<Rightarrow>
                         (r, put_path result [''data'', ''getChartBySlug'', ''data''] payload')))))"

definition network_difficulty_query :: string where
  "network_difficulty_query =
     ''query get_price_difficulty($inputInterval: ChartsInterval, $inputSlug: String) {\<newline>'' @
     ''            getChartBySlug(inputInterval: $inputInterval, inputSlug: $inputSlug) {\<newline>'' @
     ''                data\<newline>'' @
     ''            }\<newline>'' @
     ''        }''"

definition network_difficulty_params :: "json \<Rightarrow> json" where
  "network_difficulty_params inputInterval =
     JObj [(''inputInterval'', inputInterval), (''inputSlug'', JStr ''bitcoin-price-and-difficulty'')]"

definition get_network_difficulty :: "api \<Rightarrow> json \<Rightarrow> world \<Rightarrow> json result \<times> world" where
  "get_network_difficulty self inputInterval w =
     (case request self (JStr network_difficulty_query) (network_difficulty_params inputInterval) w of
        (Inl e, w') \<Rightarrow> (Inl e, w')
      | (Inr result, w') \<Rightarrow>
          (case strip_price result of
             (Some e, _) \<Rightarrow> (Inl e, w')
           | (None, result') \<Rightarrow> (Inr result', w')))"

definition ohlc_prices_query :: string where
  "ohlc_prices_query =
     ''query get_ohlc_prices($inputInterval: ChartsInterval, $inputSlug: String) {\<newline>'' @
     ''            getChartBySlug(inputInterval: $inputInterval, inputSlug: $inputSlug) {\<newline>'' @
     ''                data\<newline>'' @
     ''            }\<newline>'' @
     ''        }''"

definition get_ohlc_prices :: "api \<Rightarrow> json \<Rightarrow> world \<Rightarrow> json result \<times> world" where
  "get_ohlc_prices self inputInterval w =
     request self (JStr ohlc_prices_query)
       (JObj [(''inputInterval'', inputInterval), (''inputSlug'', JStr ''bitcoin-ohlc'')]) w"

definition asic_price_index_query :: string where
  "asic_price_index_query =
     ''query get_asic_price_index($inputInterval: ChartsInterval, $inputSlug: String) {\<newline>'' @
     ''            getChartBySlug(inputInterval: $inputInterval, inputSlug: $inputSlug) {\<newline>'' @
     ''                data\<newline>'' @
     ''            }\<newline>'' @
     ''        }''"

definition get_asic_price_index :: "api \<Rightarrow> json \<Rightarrow> json \<Rightarrow> world \<Rightarrow> json result \<times> world" where
  "get_asic_price_index self inputInterval currency w =
     (case py_lower currency of
        Inl e \<Rightarrow> (Inl e, w)
      | Inr c \<Rightarrow>
          if c \<notin> set [''btc'', ''usd''] then (Inl (Exception ''Invalid currency input''), w)
          else
            request self (JStr asic_price_index_query)
              (JObj [(''inputInterval'', inputInterval),
                     (''inputSlug'', JStr (''asic-price-index-'' @ c))]) w)"

subsection \<open>Dynamic dispatch: \<^verbatim>\<open>exec\<close>\<close>

text \<open>
  \<^verbatim>\<open>hasattr(self, method) and callable(getattr(self, method))\<close> looks the name up among the
  attributes of the instance. The class body defines the methods below; the four instance
  fields are there but are not callable. A name that begins with two underscores may be
  the constructor or one of the attributes that Python's \<^verbatim>\<open>object\<close> supplies: \<open>exec\<close>
  calls those, none of them sends a request or writes to the log, and what they return
  (an object, a text with a memory address) is no value of this model. Such names are
  marked \<open>Dunder\<close> and the outcome of \<open>exec\<close> on them is \<open>NotModelled\<close>.
\<close>

datatype meth =
    M_request
  | M_get_bitcoin_overview
  | M_get_hashprice
  | M_get_network_hashrate
  | M_get_network_difficulty
  | M_get_ohlc_prices
  | M_get_asic_price_index
  | M_exec

datatype attr = Method meth | Data | Absent | Dunder

definition getattr_API :: "string \<Rightarrow> attr" where
  "getattr_API name =
     (if name = ''request'' then Method M_request
      else if name = ''get_bitcoin_overview'' then Method M_get_bitcoin_overview
      else if name = ''get_hashprice'' then Method M_get_hashprice
      else if name = ''get_network_hashrate'' then Method M_get_network_hashrate
      else if name = ''get_network_difficulty'' then Method M_get_network_difficulty
      else if name = ''get_ohlc_prices'' then Method M_get_ohlc_prices
      else if name = ''get_asic_price_index'' then Method M_get_asic_price_index
      else if name = ''exec'' then Method M_exec
      else if name \<in> set [''host'', ''key'', ''method'', ''verbose''] then Data
      else if take 2 name = ''__'' then Dunder
      else Absent)"

definition coerce_arg :: "string \<Rightarrow> json result" where
  \<comment> \<open>the body of the loop over \<^verbatim>\<open>params.split(',')\<close>; \<^verbatim>\<open>int(arg)\<close> may raise\<close>
  "coerce_arg arg =
     (if isdigit arg then (case py_int arg of Inl e \<Rightarrow> Inl e | Inr n \<Rightarrow> Inr (JInt n))
      else Inr (JStr arg))"

fun coerce_args :: "string list \<Rightarrow> json list result" where
  \<comment> \<open>the loop: the arguments in their order, or the first error\<close>
  "coerce_args [] = Inr []"
| "coerce_args (arg # rest) =
     (case coerce_arg arg of
        Inl e \<Rightarrow> Inl e
      | Inr v \<Rightarrow> (case coerce_args rest of Inl e \<Rightarrow> Inl e | Inr vs \<Rightarrow> Inr (v # vs)))"

fun str_size :: "json \<Rightarrow> nat" where
  "str_size (JStr s) = length s"
| "str_size _ = 0"

text \<open>
  \<open>exec\<close> looks the method up, tests \<^verbatim>\<open>len(params)\<close> (a \<^verbatim>\<open>TypeError\<close> on a value
  without length), splits and coerces the arguments and applies the method; \<open>call\<close> is
  that application, a \<^verbatim>\<open>TypeError\<close> when the number of arguments does not fit the
  signature. \<open>exec\<close> is itself a method of the instance, so the two are mutually
  recursive: an inner \<open>exec\<close> receives one comma-free piece of the outer argument string.
\<close>

function (sequential) exec :: "api \<Rightarrow> json \<Rightarrow> json \<Rightarrow> world \<Rightarrow> json result \<times> world"
  and call :: "api \<Rightarrow> meth \<Rightarrow> json list \<Rightarrow> world \<Rightarrow> json result \<times> world"
where
  "exec self (JStr name) params w =
     (case getattr_API name of
        Method func \<Rightarrow>
          (case params of
             JStr p \<Rightarrow>
               if p = [] then call self func [] w
               else
                 (case coerce_args (split p CHR '','') of
                    Inl e \<Rightarrow> (Inl e, w)
                  | Inr args \<Rightarrow> call self func args w)
           | JArr xs \<Rightarrow> if xs = [] then call self func [] w else (Inl AttributeError, w)
           | JObj kvs \<Rightarrow> if kvs = [] then call self func [] w else (Inl AttributeError, w)
           | _ \<Rightarrow> (Inl TypeError, w))
      | Dunder \<Rightarrow> (Inl NotModelled, w)
      | _ \<Rightarrow> (Inl (Exception (''failed to execute '' @ name)), w))"
| "exec self _ params w = (Inl TypeError, w)"
| "call self M_request [query] w = request self query JNull w"
| "call self M_request [query, params] w = request self query params w"
| "call self M_get_bitcoin_overview [] w = get_bitcoin_overview self w"
| "call self M_get_hashprice [inputInterval, currency] w =
     get_hashprice self inputInterval currency w"
| "call self M_get_network_hashrate [inputInterval] w = get_network_hashrate self inputInterval w"
| "call self M_get_network_difficulty [inputInterval] w =
     get_network_difficulty self inputInterval w"
| "call self M_get_ohlc_prices [inputInterval] w = get_ohlc_prices self inputInterval w"
| "call self M_get_asic_price_index [inputInterval, currency] w =
     get_asic_price_index self inputInterval currency w"
| "call self M_exec [name, params] w = exec self name params w"
| "call self _ _ w = (Inl TypeError, w)"
  by pat_completeness auto

termination
proof (relation "measure (\<lambda>x. case x of
            Inl (self, name, params, w) \<Rightarrow> 2 * str_size params + 1
          | Inr (self, func, args, w) \<Rightarrow>
              (case (func, args) of (M_exec, [name, p]) \<Rightarrow> 2 * str_size p + 2 | _ \<Rightarrow> 0))",
       goal_cases)
  case 1
  show ?case by simp
next
  case (2 self name params w func p)
  show ?case by (simp split: meth.splits list.splits)
next
  case (3 self name params w func p args)
  have total: "sum_list (map length (split_acc sep acc s)) + length (split_acc sep acc s)
               = length acc + length s + 1" for sep acc s
    by (induction s arbitrary: acc) auto
  have size: "str_size v \<le> length arg" if "coerce_arg arg = Inr v" for arg v
    using that by (auto simp: coerce_arg_def split: if_splits sum.splits)
  have each: "list_all2 (\<lambda>arg v. coerce_arg arg = Inr v) xs vs"
    if "coerce_args xs = Inr vs" for xs vs
    using that by (induction xs arbitrary: vs) (auto split: sum.splits)
  have "str_size b < length p" if "args = [a, b]" for a b
  proof -
    from that 3 have "coerce_args (split p CHR '','') = Inr [a, b]" by simp
    from each [OF this] obtain a' b'
      where s: "split p CHR '','' = [a', b']" and b: "coerce_arg b' = Inr b"
      by (auto simp: list_all2_Cons2)
    from total [of "CHR '',''" "[]" p] s have "length b' < length p"
      by (simp add: split_def)
    with size [OF b] show ?thesis by simp
  qed
  with 3 show ?case by (auto split: meth.splits list.splits)
next
  case 4
  show ?case by (simp split: meth.splits list.splits)
next
  case 5
  show ?case by (simp split: meth.splits list.splits)
next
  case 6
  show ?case by simp
qed

section \<open>The resolvers: \<^verbatim>\<open>class RESOLVERS\<close>\<close>

record resolvers =
  df :: bool

text \<open>
  A resolver returns the payload as it is, or \<^verbatim>\<open>pd.DataFrame(data)\<close>; pandas is not
  modelled, \<open>DataFrame data\<close> stands for the table it builds.
\<close>

datatype resolved = Records json | DataFrame json

definition getitem3 :: "json \<Rightarrow> string \<Rightarrow> string \<Rightarrow> string \<Rightarrow> json result" where
  \<comment> \<open>\<^verbatim>\<open>json[a][b][c]\<close>, evaluated from the left\<close>
  "getitem3 v a b c =
     (case py_getitem v a of
        Inl e \<Rightarrow> Inl e
      | Inr x \<Rightarrow>
          (case py_getitem x b of
             Inl e \<Rightarrow> Inl e
           | Inr y \<Rightarrow> py_getitem y c))"

definition shape :: "resolvers \<Rightarrow> json \<Rightarrow> resolved" where
  "shape self data = (if df self then DataFrame data else Records data)"

definition resolve_get_bitcoin_overview :: "resolvers \<Rightarrow> json \<Rightarrow> resolved result" where
  "resolve_get_bitcoin_overview self json =
     (case getitem3 json ''data'' ''bitcoinOverviews'' ''nodes'' of
        Inl e \<Rightarrow> Inl e | Inr data \<Rightarrow> Inr (shape self data))"

definition resolve_get_hashprice :: "resolvers \<Rightarrow> json \<Rightarrow> resolved result" where
  "resolve_get_hashprice self json =
     (case getitem3 json ''data'' ''getHashprice'' ''nodes'' of
        Inl e \<Rightarrow> Inl e | Inr data \<Rightarrow> Inr (shape self data))"

definition resolve_get_network_hashrate :: "resolvers \<Rightarrow> json \<Rightarrow> resolved result" where
  "resolve_get_network_hashrate self json =
     (case getitem3 json ''data'' ''getNetworkHashrate'' ''nodes'' of
        Inl e \<Rightarrow> Inl e | Inr data \<Rightarrow> Inr (shape self data))"

definition resolve_get_network_difficulty :: "resolvers \<Rightarrow> json \<Rightarrow> resolved result" where
  "resolve_get_network_difficulty self json =
     (case getitem3 json ''data'' ''getChartBySlug'' ''data'' of
        Inl e \<Rightarrow> Inl e | Inr data \<Rightarrow> Inr (shape self data))"

definition resolve_get_ohlc_prices :: "resolvers \<Rightarrow> json \<Rightarrow> resolved result" where
  "resolve_get_ohlc_prices self json =
     (case getitem3 json ''data'' ''getChartBySlug'' ''data'' of
        Inl e \<Rightarrow> Inl e | Inr data \<Rightarrow> Inr (shape self data))"

definition resolve_get_asic_price_index :: "resolvers \<Rightarrow> json \<Rightarrow> resolved result" where
  "resolve_get_asic_price_index self json =
     (case getitem3 json ''data'' ''getChartBySlug'' ''data'' of
        Inl e \<Rightarrow> Inl e | Inr data \<Rightarrow> Inr (shape self data))"

section \<open>Notions of the specification\<close>

text \<open>
  These definitions follow the words of the specification, not the code; the theorems
  below compare the code with them.
\<close>

fun lookup_path :: "json \<Rightarrow> string list \<Rightarrow> json option" where
  \<comment> \<open>the value under an extraction path: an ordered sequence of object keys leading from the
      envelope root to the payload; \<open>None\<close> when the path is absent\<close>
  "lookup_path v [] = Some v"
| "lookup_path (JObj kvs) (k # ks) =
     (case map_of kvs k of None \<Rightarrow> None | Some x \<Rightarrow> lookup_path x ks)"
| "lookup_path v (k # ks) = None"

fun has_key :: "string \<Rightarrow> json \<Rightarrow> bool" where
  \<comment> \<open>a record that contains the field\<close>
  "has_key k (JObj kvs) = (k \<in> set (map fst kvs))"
| "has_key k v = False"


fun without_key :: "string \<Rightarrow> json \<Rightarrow> json" where
  \<comment> \<open>the record with the field removed, all other fields unchanged and in their order\<close>
  "without_key k (JObj kvs) = JObj (filter (\<lambda>kv. fst kv \<noteq> k) kvs)"
| "without_key k v = v"

fun field_value :: "json \<Rightarrow> string \<Rightarrow> json option" where
  \<comment> \<open>the value of a field of a record\<close>
  "field_value (JObj kvs) k = map_of kvs k"
| "field_value v k = None"

definition same_letter :: "char \<Rightarrow> char \<Rightarrow> bool" where
  \<comment> \<open>two characters that are equal or the two cases of one letter\<close>
  "same_letter a b = (a = b \<or> lower_char a = b \<or> a = lower_char b)"

definition differ_only_in_case :: "string \<Rightarrow> string \<Rightarrow> bool" where
  "differ_only_in_case s t = list_all2 same_letter s t"

definition non_2xx :: "int \<Rightarrow> bool" where
  "non_2xx status = (status < 200 \<or> 299 < status)"

definition hashprice_query :: "string \<Rightarrow> string" where
  \<comment> \<open>the query text that asks for \<^verbatim>\<open>timestamp\<close> and one named field of each node\<close>
  "hashprice_query field_name =
     ''query get_hashprice($inputInterval: ChartsInterval!, $first: Int) {\<newline>'' @
     ''            getHashprice(inputInterval: $inputInterval, first: $first) {\<newline>'' @
     ''                nodes {\<newline>'' @
     ''                    timestamp\<newline>'' @
     ''                    '' @ field_name @ ''\<newline>'' @
     ''                }\<newline>'' @
     ''            }\<newline>'' @
     ''        }''"

definition intervals :: "string list" where
  \<comment> \<open>the interval enumeration\<close>
  "intervals = [''_1_DAY'', ''_7_DAYS'', ''_1_MONTH'', ''_3_MONTHS'', ''_1_YEAR'', ''ALL'']"

definition decimal_numeral :: "string \<Rightarrow> nat list \<Rightarrow> bool" where
  \<comment> \<open>a text of decimal digits only, at most as many as \<^verbatim>\<open>int\<close> converts, with its characters\<close>
  "decimal_numeral d cps =
     (code_points (map of_char d) = Some cps \<and> cps \<noteq> [] \<and> list_all decimal_cp cps
      \<and> length cps \<le> int_max_str_digits)"

definition malformed_response :: "error \<Rightarrow> bool" where
  \<comment> \<open>the failure of an extraction: what a subscript raises when the key is missing
      (\<^verbatim>\<open>KeyError\<close>) or the value is no mapping (\<^verbatim>\<open>TypeError\<close>)\<close>
  "malformed_response e = (case e of KeyError k \<Rightarrow> True | TypeError \<Rightarrow> True | _ \<Rightarrow> False)"

definition chart_path :: "string list" where
  \<comment> \<open>the extraction path of the chart operations\<close>
  "chart_path = [''data'', ''getChartBySlug'', ''data'']"

section \<open>Concrete inputs\<close>

definition demo_api :: api where
  "demo_api = \<lparr>host = ''https://api.hashrateindex.com/graphql'', key = ''k'',
               method = ''POST'', verbose = False\<rparr>"

definition answering :: "response \<Rightarrow> world" where
  \<comment> \<open>a fresh world whose server gives the same response to every request\<close>
  "answering r = \<lparr>transport = (\<lambda>rq. Inr r), sent = [], logged = []\<rparr>"

definition ok_response :: "json \<Rightarrow> response" where
  "ok_response j = \<lparr>status_code = 200, reason = ''OK'', content = ''{}'', json_value = Some j\<rparr>"

definition chart_envelope :: "json list \<Rightarrow> json" where
  "chart_envelope recs = JObj [(''data'', JObj [(''getChartBySlug'', JObj [(''data'', JArr recs)])])]"

definition demo_records :: "json list" where
  "demo_records =
     [JObj [(''timestamp'', JStr ''2022-01-01''), (''price'', JInt 47000), (''difficulty'', JInt 24)],
      JObj [(''timestamp'', JStr ''2022-01-02''), (''price'', JInt 47500), (''difficulty'', JInt 25)]]"


definition superscript_two :: string where
  \<comment> \<open>the one-character text \<^verbatim>\<open>U+00B2\<close>, in UTF-8\<close>
  "superscript_two = [CHR 0xC2, CHR 0xB2]"

definition long_numeral :: string where
  \<comment> \<open>4301 times the digit seven\<close>
  "long_numeral = replicate 4301 CHR ''7''"

definition demo_sent :: "response \<Rightarrow> world" where
  \<comment> \<open>the world after \<open>demo_api\<close> has asked for the difficulty chart of \<^verbatim>\<open>ALL\<close>\<close>
  "demo_sent r =
     (answering r)\<lparr>sent := [build_request demo_api (JStr network_difficulty_query)
                                (network_difficulty_params (JStr ''ALL''))]\<rparr>"

definition undecodable :: response where
  \<comment> \<open>a server error whose body is the single byte \<^verbatim>\<open>0xFF\<close>\<close>
  "undecodable = \<lparr>status_code = 500, reason = ''Internal Server Error'',
                   content = [CHR 0xFF], json_value = None\<rparr>"

definition not_found :: response where
  "not_found = \<lparr>status_code = 404, reason = ''Not Found'',
                 content = ''no such page'', json_value = None\<rparr>"

definition bad_gateway :: response where
  "bad_gateway = \<lparr>status_code = 502, reason = ''Bad Gateway'', content = [], json_value = None\<rparr>"

section \<open>Facts about \<^verbatim>\<open>request\<close>\<close>

declare str_nat.simps [simp del]

text \<open>Every call of \<open>request\<close> issues exactly one HTTP request, whatever the answer.\<close>

lemma request_sends:
  "sent (snd (request self query params w)) = sent w @ [build_request self query params]"
  by (simp add: request_def Let_def split: sum.splits option.splits)

lemma request_undecodable_body:
  assumes "transport w (build_request self query params) = Inr r"
    and "status_code r \<noteq> 200" and "content r \<noteq> []"
    and "\<not> utf8_valid (map of_char (content r))"
  shows "fst (request self query params w) = Inl UnicodeDecodeError"
  using assms by (simp add: request_def Let_def decode_def)

section \<open>Currency validation and the hashprice query\<close>

lemma lower_same_letter: "same_letter a b \<Longrightarrow> lower_char a = lower_char b"
  by (auto simp: same_letter_def lower_char_def Let_def)

lemma lower_differ_only_in_case: "differ_only_in_case s t \<Longrightarrow> lower s = lower t"
  unfolding differ_only_in_case_def lower_def
  by (induction rule: list_all2_induct) (auto dest: lower_same_letter)

lemma lower_EUR: "lower ''EUR'' = ''eur''"
  by code_simp

lemma lower_USD: "lower ''USD'' = ''usd''"
  by code_simp

lemma case_USD_Usd: "differ_only_in_case ''USD'' ''Usd''"
  by code_simp

lemma format_hashprice_template:
  "format hashprice_template [(''field'', f)] = Inr (hashprice_query f)"
  by (simp add: format_def hashprice_template_def hashprice_query_def)

text \<open>
  C1. For every currency string whose lower-case form is neither \<^verbatim>\<open>btc\<close> nor \<^verbatim>\<open>usd\<close>,
  \<open>get_hashprice\<close> and \<open>get_asic_price_index\<close> both fail with the exception
  \<^verbatim>\<open>Invalid currency input\<close> (the specification's InvalidArgument) and leave the world as
  it was: \<open>request\<close>, which always adds to \<open>sent\<close>, has not run and no HTTP request has
  been made.
\<close>

theorem invalid_currency_no_request:
  assumes "lower c \<noteq> ''btc''" and "lower c \<noteq> ''usd''"
  shows "get_hashprice self inputInterval (JStr c) w
           = (Inl (Exception ''Invalid currency input''), w)
       \<and> get_asic_price_index self inputInterval (JStr c) w
           = (Inl (Exception ''Invalid currency input''), w)"
  using assms by (simp add: get_hashprice_def get_asic_price_index_def py_lower_def)

theorem invalid_currency_no_request_witness:
  "lower ''EUR'' \<noteq> ''btc'' \<and> lower ''EUR'' \<noteq> ''usd''
   \<and> get_hashprice demo_api (JStr ''ALL'') (JStr ''EUR'') (answering (ok_response JNull))
       = (Inl (Exception ''Invalid currency input''), answering (ok_response JNull))
   \<and> get_asic_price_index demo_api (JStr ''ALL'') (JStr ''EUR'') (answering (ok_response JNull))
       = (Inl (Exception ''Invalid currency input''), answering (ok_response JNull))
   \<and> sent (answering (ok_response JNull)) = []"
  using invalid_currency_no_request
          [of "''EUR''" demo_api "JStr ''ALL''" "answering (ok_response JNull)"]
  by (simp add: lower_EUR answering_def)

text \<open>
  C2. For every two currency strings that differ only in letter case and every interval,
  \<open>get_hashprice\<close> has the same outcome for both, and so has \<open>get_asic_price_index\<close>.
  When the currency is supported, both spellings make \<open>get_hashprice\<close> send the query
  text whose field is the common lower-case form followed by \<^verbatim>\<open>Hashprice\<close>, and make
  \<open>get_asic_price_index\<close> send the parameter mapping whose slug is
  \<^verbatim>\<open>asic-price-index-\<close> followed by that form: the outgoing request does not change with
  the case of the currency argument.
\<close>

theorem currency_case_invariant:
  assumes "differ_only_in_case c1 c2"
  shows "get_hashprice self inputInterval (JStr c1) w
           = get_hashprice self inputInterval (JStr c2) w
       \<and> get_asic_price_index self inputInterval (JStr c1) w
           = get_asic_price_index self inputInterval (JStr c2) w
       \<and> (lower c1 = ''btc'' \<or> lower c1 = ''usd'' \<longrightarrow>
            get_hashprice self inputInterval (JStr c2) w
              = request self (JStr (hashprice_query (lower c1 @ ''Hashprice'')))
                  (JObj [(''inputInterval'', inputInterval), (''first'', JInt 10000)]) w
          \<and> sent (snd (get_hashprice self inputInterval (JStr c2) w))
              = sent w @ [build_request self (JStr (hashprice_query (lower c1 @ ''Hashprice'')))
                            (JObj [(''inputInterval'', inputInterval), (''first'', JInt 10000)])]
          \<and> get_asic_price_index self inputInterval (JStr c2) w
              = request self (JStr asic_price_index_query)
                  (JObj [(''inputInterval'', inputInterval),
                         (''inputSlug'', JStr (''asic-price-index-'' @ lower c1))]) w
          \<and> sent (snd (get_asic_price_index self inputInterval (JStr c2) w))
              = sent w @ [build_request self (JStr asic_price_index_query)
                            (JObj [(''inputInterval'', inputInterval),
                                   (''inputSlug'', JStr (''asic-price-index-'' @ lower c1))])])"
proof -
  from assms have same: "lower c2 = lower c1"
    by (simp add: lower_differ_only_in_case)
  then have "get_hashprice self inputInterval (JStr c1) w
               = get_hashprice self inputInterval (JStr c2) w"
    and "get_asic_price_index self inputInterval (JStr c1) w
           = get_asic_price_index self inputInterval (JStr c2) w"
    by (simp_all add: get_hashprice_def get_asic_price_index_def py_lower_def)
  moreover have "get_hashprice self inputInterval (JStr c2) w
              = request self (JStr (hashprice_query (lower c1 @ ''Hashprice'')))
                  (JObj [(''inputInterval'', inputInterval), (''first'', JInt 10000)]) w"
    and "get_asic_price_index self inputInterval (JStr c2) w
              = request self (JStr asic_price_index_query)
                  (JObj [(''inputInterval'', inputInterval),
                         (''inputSlug'', JStr (''asic-price-index-'' @ lower c1))]) w"
    if "lower c1 = ''btc'' \<or> lower c1 = ''usd''"
    using that same
    by (auto simp add: get_hashprice_def get_asic_price_index_def py_lower_def
          format_hashprice_template)
  ultimately show ?thesis
    by (simp add: request_sends)
qed

theorem currency_case_invariant_witness:
  "differ_only_in_case ''USD'' ''Usd''
   \<and> (lower ''USD'' = ''btc'' \<or> lower ''USD'' = ''usd'')
   \<and> get_hashprice demo_api (JStr ''ALL'') (JStr ''USD'') (answering (ok_response JNull))
       = get_hashprice demo_api (JStr ''ALL'') (JStr ''Usd'') (answering (ok_response JNull))
   \<and> map rq_data (sent (snd (get_hashprice demo_api (JStr ''ALL'') (JStr ''Usd'')
                               (answering (ok_response JNull)))))
       = [JObj [(''query'', JStr (hashprice_query ''usdHashprice'')),
                (''variables'', JObj [(''inputInterval'', JStr ''ALL''), (''first'', JInt 10000)])]]
   \<and> get_asic_price_index demo_api (JStr ''ALL'') (JStr ''USD'') (answering (ok_response JNull))
       = get_asic_price_index demo_api (JStr ''ALL'') (JStr ''Usd'') (answering (ok_response JNull))
   \<and> map rq_data (sent (snd (get_asic_price_index demo_api (JStr ''ALL'') (JStr ''Usd'')
                               (answering (ok_response JNull)))))
       = [JObj [(''query'', JStr asic_price_index_query),
                (''variables'', JObj [(''inputInterval'', JStr ''ALL''),
                                      (''inputSlug'', JStr ''asic-price-index-usd'')])]]"
  using currency_case_invariant
          [OF case_USD_Usd, of demo_api "JStr ''ALL''" "answering (ok_response JNull)"]
        case_USD_Usd
  by (simp add: lower_USD build_request_def request_sends answering_def)

text \<open>
  C6. For every valid currency (lower-case form \<^verbatim>\<open>btc\<close> or \<^verbatim>\<open>usd\<close>), \<open>get_hashprice\<close>
  calls \<open>request\<close> with the template's text in which the field is the lower-cased currency
  followed by \<^verbatim>\<open>Hashprice\<close>; the interval and \<^verbatim>\<open>first = 10000\<close> travel in the variables
  mapping and do not occur in the query text, which depends on the currency alone.
\<close>

theorem hashprice_field_substitution:
  assumes "lower c = ''btc'' \<or> lower c = ''usd''"
  shows "get_hashprice self inputInterval (JStr c) w
         = request self (JStr (hashprice_query (lower c @ ''Hashprice'')))
             (JObj [(''inputInterval'', inputInterval), (''first'', JInt 10000)]) w
       \<and> sent (snd (get_hashprice self inputInterval (JStr c) w))
         = sent w @ [build_request self (JStr (hashprice_query (lower c @ ''Hashprice'')))
                       (JObj [(''inputInterval'', inputInterval), (''first'', JInt 10000)])]"
proof -
  have "get_hashprice self inputInterval (JStr c) w
         = request self (JStr (hashprice_query (lower c @ ''Hashprice'')))
             (JObj [(''inputInterval'', inputInterval), (''first'', JInt 10000)]) w"
    using assms
    by (auto simp add: get_hashprice_def py_lower_def format_hashprice_template)
  then show ?thesis by (simp add: request_sends)
qed

theorem hashprice_field_substitution_witness:
  "(lower ''USD'' = ''btc'' \<or> lower ''USD'' = ''usd'')
   \<and> map rq_data (sent (snd (get_hashprice demo_api (JStr ''_1_DAY'') (JStr ''USD'')
                               (answering (ok_response JNull)))))
     = [JObj [(''query'', JStr (hashprice_query ''usdHashprice'')),
              (''variables'', JObj [(''inputInterval'', JStr ''_1_DAY''), (''first'', JInt 10000)])]]"
  using hashprice_field_substitution
          [of "''USD''" demo_api "JStr ''_1_DAY''" "answering (ok_response JNull)"]
  by (simp add: lower_USD build_request_def request_sends answering_def)

section \<open>Status codes and error messages\<close>

text \<open>
  C9. \<open>request\<close> treats status 200 alone as success: for every response whose status is
  not 200, other 2xx codes included, it returns an error and never the decoded body.
\<close>

theorem only_200_succeeds:
  assumes "transport w (build_request self query params) = Inr r"
    and "status_code r \<noteq> 200"
  shows "\<exists>e. fst (request self query params w) = Inl e"
  using assms by (simp add: request_def Let_def split: sum.splits)

theorem only_200_succeeds_witness:
  "transport (answering \<lparr>status_code = 201, reason = ''Created'', content = ''{}'',
                         json_value = Some (JObj [])\<rparr>)
      (build_request demo_api (JStr ''q'') JNull)
     = Inr \<lparr>status_code = 201, reason = ''Created'', content = ''{}'', json_value = Some (JObj [])\<rparr>
   \<and> status_code \<lparr>status_code = 201, reason = ''Created'', content = ''{}'',
                   json_value = Some (JObj [])\<rparr> \<noteq> 200
   \<and> (\<exists>e. fst (request demo_api (JStr ''q'') JNull
                (answering \<lparr>status_code = 201, reason = ''Created'', content = ''{}'',
                            json_value = Some (JObj [])\<rparr>)) = Inl e)"
  using only_200_succeeds
    [of "answering \<lparr>status_code = 201, reason = ''Created'', content = ''{}'',
                    json_value = Some (JObj [])\<rparr>"
        demo_api "JStr ''q''" JNull
        "\<lparr>status_code = 201, reason = ''Created'', content = ''{}'', json_value = Some (JObj [])\<rparr>"]
  by (simp add: answering_def)

lemma str_int_404: "str_int 404 = ''404''"
  by code_simp

lemma str_int_502: "str_int 502 = ''502''"
  by code_simp

lemma utf8_no_such_page: "utf8_valid (map of_char ''no such page'')"
  by code_simp

lemma utf8_invalid_FF: "\<not> utf8_valid (map of_char [CHR 0xFF])"
  by code_simp

text \<open>
  C3, as amended. For every response with a non-2xx status: if the body is non-empty and
  decodes (it is well-formed UTF-8), \<open>request\<close> fails with an exception whose message is
  the status code, \<^verbatim>\<open>": "\<close>, the reason phrase, \<^verbatim>\<open>": "\<close> and the decoded body text, in
  that order; if the body is empty, it fails with an exception whose message is the status
  code, \<^verbatim>\<open>": "\<close> and the reason phrase.
\<close>

theorem remote_error_message:
  assumes "transport w (build_request self query params) = Inr r"
    and "non_2xx (status_code r)"
  shows "(\<forall>text. content r \<noteq> [] \<and> decode (content r) = Inr text \<longrightarrow>
            fst (request self query params w)
            = Inl (Exception (str_int (status_code r) @ '': '' @ reason r @ '': '' @ text)))
       \<and> (content r = [] \<longrightarrow>
            fst (request self query params w)
            = Inl (Exception (str_int (status_code r) @ '': '' @ reason r)))"
proof -
  from assms(2) have "status_code r \<noteq> 200"
    by (auto simp: non_2xx_def)
  with assms(1) show ?thesis
    by (simp add: request_def Let_def)
qed

theorem remote_error_message_witness:
  "transport (answering not_found) (build_request demo_api (JStr ''q'') JNull) = Inr not_found
   \<and> non_2xx (status_code not_found)
   \<and> content not_found \<noteq> [] \<and> decode (content not_found) = Inr ''no such page''
   \<and> fst (request demo_api (JStr ''q'') JNull (answering not_found))
       = Inl (Exception ''404: Not Found: no such page'')
   \<and> transport (answering bad_gateway) (build_request demo_api (JStr ''q'') JNull) = Inr bad_gateway
   \<and> non_2xx (status_code bad_gateway) \<and> content bad_gateway = []
   \<and> fst (request demo_api (JStr ''q'') JNull (answering bad_gateway))
       = Inl (Exception ''502: Bad Gateway'')"
proof -
  have t1: "transport (answering not_found) (build_request demo_api (JStr ''q'') JNull) = Inr not_found"
    and t2: "transport (answering bad_gateway) (build_request demo_api (JStr ''q'') JNull) = Inr bad_gateway"
    by (simp_all add: answering_def)
  have n1: "non_2xx (status_code not_found)" and n2: "non_2xx (status_code bad_gateway)"
    by (simp_all add: non_2xx_def not_found_def bad_gateway_def)
  have c1: "content not_found = ''no such page''" "reason not_found = ''Not Found''"
      "status_code not_found = 404"
    and c2: "content bad_gateway = []" "reason bad_gateway = ''Bad Gateway''"
      "status_code bad_gateway = 502"
    by (simp_all add: not_found_def bad_gateway_def)
  have d1: "decode ''no such page'' = Inr ''no such page''"
    using utf8_no_such_page by (simp add: decode_def)
  from remote_error_message [OF t1 n1] remote_error_message [OF t2 n2]
  show ?thesis
    using t1 t2 n1 n2 by (simp add: c1 c2 d1 str_int_404 str_int_502)
qed

text \<open>
  The claim C3 as first stated fails on a non-empty body that is not UTF-8: the response
  \<open>undecodable\<close> has status 500 and a one-byte body, and \<open>request\<close> raises
  \<^verbatim>\<open>UnicodeDecodeError\<close> from \<^verbatim>\<open>decode()\<close>, an error that carries neither status nor
  reason.
\<close>

theorem remote_error_message_counterexample:
  "non_2xx (status_code undecodable) \<and> content undecodable \<noteq> []
   \<and> fst (request demo_api (JStr ''q'') JNull (answering undecodable)) = Inl UnicodeDecodeError"
proof -
  have "transport (answering undecodable) (build_request demo_api (JStr ''q'') JNull)
        = Inr undecodable"
    by (simp add: answering_def)
  moreover have "status_code undecodable \<noteq> 200" "content undecodable \<noteq> []"
    "\<not> utf8_valid (map of_char (content undecodable))"
    using utf8_invalid_FF by (simp_all add: undecodable_def)
  ultimately have "fst (request demo_api (JStr ''q'') JNull (answering undecodable))
                   = Inl UnicodeDecodeError"
    by (rule request_undecodable_body)
  then show ?thesis
    by (simp add: non_2xx_def undecodable_def)
qed

section \<open>Dynamic dispatch\<close>

lemma split_acc_no_sep: "sep \<notin> set s \<Longrightarrow> split_acc sep acc s = [rev acc @ s]"
  by (induction s arbitrary: acc) auto

lemma split_no_comma: "CHR '','' \<notin> set a \<Longrightarrow> split a CHR '','' = [a]"
  by (simp add: split_def split_acc_no_sep)

lemma coerce_args_single:
  "coerce_args [a] = (case coerce_arg a of Inl e \<Rightarrow> Inl e | Inr v \<Rightarrow> Inr [v])"
  by (simp split: sum.splits)

lemma code_points_ascii: "\<forall>b\<in>set bs. b < 128 \<Longrightarrow> code_points bs = Some bs"
  by (induction bs) auto

text \<open>
  In UTF-8 the byte of the comma occurs only as the comma itself, never inside the
  encoding of another character.
\<close>

lemma code_points_comma:
  "code_points bs = Some cps \<Longrightarrow> 44 \<in> set bs \<Longrightarrow> 44 \<in> set cps"
proof (induction bs arbitrary: cps rule: code_points.induct)
  case 1
  then show ?case by simp
next
  case (2 a bs)
  consider (one) "a < 128"
    | (two) "194 \<le> a" "a \<le> 223"
    | (three) "224 \<le> a" "a \<le> 239"
    | (four) "240 \<le> a" "a \<le> 244"
    | (bad) "128 \<le> a" "a < 194 \<or> 244 < a"
    by linarith
  then show ?case
  proof cases
    case one
    with "2.prems" obtain cps' where c: "code_points bs = Some cps'" "cps = a # cps'"
      by auto
    show ?thesis
    proof (cases "a = 44")
      case True
      with c show ?thesis by simp
    next
      case False
      with "2.prems" have "44 \<in> set bs" by simp
      from "2.IH"(1) [OF one c(1) this] c show ?thesis by simp
    qed
  next
    case two
    with "2.prems"(1) obtain b r cps' where
      c: "bs = b # r" "128 \<le> b" "code_points r = Some cps'"
         "cps = ((a - 192) * 64 + (b - 128)) # cps'" "b \<le> 191"
      by (auto split: list.splits if_splits)
    from two c "2.prems"(2) have r: "44 \<in> set r" by auto
    from two c have "\<not> a < 128" "194 \<le> a \<and> a \<le> 223" "128 \<le> b \<and> b \<le> 191" by auto
    from "2.IH"(2) [OF this(1,2) c(1) this(3) c(3) r] c show ?thesis by simp
  next
    case three
    with "2.prems"(1) obtain b c r cps' where
      c: "bs = b # c # r" "128 \<le> b" "128 \<le> c" "code_points r = Some cps'"
         "cps = ((a - 224) * 4096 + (b - 128) * 64 + (c - 128)) # cps'"
         "(if a = 224 then 160 \<le> b \<and> b \<le> 191
           else if a = 237 then 128 \<le> b \<and> b \<le> 159
           else 128 \<le> b \<and> b \<le> 191) \<and> 128 \<le> c \<and> c \<le> 191"
      by (auto split: list.splits if_splits)
    from three c "2.prems"(2) have r: "44 \<in> set r" by auto
    from three c have "\<not> a < 128" "\<not> (194 \<le> a \<and> a \<le> 223)" "224 \<le> a \<and> a \<le> 239"
      by auto
    from "2.IH"(3) [OF this c(1) refl c(6) c(4) r] c show ?thesis by simp
  next
    case four
    with "2.prems"(1) obtain b c d r cps' where
      c: "bs = b # c # d # r" "128 \<le> b" "128 \<le> c" "128 \<le> d" "code_points r = Some cps'"
         "cps = ((a - 240) * 262144 + (b - 128) * 4096 + (c - 128) * 64 + (d - 128)) # cps'"
         "(if a = 240 then 144 \<le> b \<and> b \<le> 191
           else if a = 244 then 128 \<le> b \<and> b \<le> 143
           else 128 \<le> b \<and> b \<le> 191) \<and> 128 \<le> c \<and> c \<le> 191 \<and> 128 \<le> d \<and> d \<le> 191"
      by (auto split: list.splits if_splits)
    from four c "2.prems"(2) have r: "44 \<in> set r" by auto
    from four c have "\<not> a < 128" "\<not> (194 \<le> a \<and> a \<le> 223)" "\<not> (224 \<le> a \<and> a \<le> 239)"
      "240 \<le> a \<and> a \<le> 244" by auto
    from "2.IH"(4) [OF this c(1) refl refl c(7) c(5) r] c show ?thesis by simp
  next
    case bad
    with "2.prems"(1) show ?thesis by auto
  qed
qed

lemma not_digit_comma: "\<not> digit_cp 44"
  by (simp add: digit_cp_def decimal_runs_def other_digits_def in_run_def)

lemma decimal_is_digit: "decimal_cp c \<Longrightarrow> digit_cp c"
  by (simp add: decimal_cp_def digit_cp_def)

lemma digits_no_comma:
  assumes "code_points (map of_char d) = Some cps" and "list_all digit_cp cps"
  shows "CHR '','' \<notin> set d"
proof
  assume "CHR '','' \<in> set d"
  then have "of_char CHR '','' \<in> set (map of_char d :: nat list)"
    by (simp only: set_map) (rule imageI)
  then have "44 \<in> set (map of_char d :: nat list)" by simp
  from code_points_comma [OF assms(1) this] assms(2) have "digit_cp 44"
    by (simp add: list_all_iff)
  with not_digit_comma show False ..
qed

lemma isdigit_no_comma: "isdigit d \<Longrightarrow> CHR '','' \<notin> set d"
  by (auto simp: isdigit_def split: option.splits dest: digits_no_comma)

lemma isdigit_nonempty: "isdigit d \<Longrightarrow> d \<noteq> []"
  by (auto simp: isdigit_def)

lemma decimal_numeral_isdigit: "decimal_numeral d cps \<Longrightarrow> isdigit d"
  by (auto simp: decimal_numeral_def isdigit_def list_all_iff dest: decimal_is_digit)

lemma decimal_numeral_py_int: "decimal_numeral d cps \<Longrightarrow> py_int d = Inr (decimal_number cps)"
  by (simp add: decimal_numeral_def py_int_def)

lemma coerce_decimal_numeral:
  "decimal_numeral d cps \<Longrightarrow> coerce_arg d = Inr (JInt (decimal_number cps))"
  by (simp add: coerce_arg_def decimal_numeral_isdigit decimal_numeral_py_int)

lemma str_nat_bytes: "\<forall>b\<in>set (map of_char (str_nat n) :: nat list). 48 \<le> b \<and> b \<le> 57"
proof (induction n rule: str_nat.induct)
  case (1 n)
  show ?case
  proof (cases "n < 10")
    case True
    then show ?thesis by (subst str_nat.simps) simp
  next
    case False
    with 1 show ?thesis by (subst str_nat.simps) auto
  qed
qed

lemma str_nat_nonempty: "str_nat n \<noteq> []"
  by (subst str_nat.simps) simp

lemma decimal_cp_ascii: "48 \<le> c \<Longrightarrow> c \<le> 57 \<Longrightarrow> decimal_cp c"
  by (simp add: decimal_cp_def decimal_runs_def in_run_def)

lemma decimal_value_ascii: "48 \<le> c \<Longrightarrow> c \<le> 57 \<Longrightarrow> decimal_value c = c - 48"
  by (simp add: decimal_value_def decimal_runs_def in_run_def)

lemma decimal_number_snoc:
  "decimal_number (cps @ [c]) = 10 * decimal_number cps + int (decimal_value c)"
  by (simp add: decimal_number_def)

text \<open>\<^verbatim>\<open>int(str(n))\<close> is \<open>n\<close>: the coercion reads a decimal numeral back as its number.\<close>

lemma decimal_number_str_nat: "decimal_number (map of_char (str_nat n)) = int n"
proof (induction n rule: str_nat.induct)
  case (1 n)
  show ?case
  proof (cases "n < 10")
    case True
    then show ?thesis
      by (subst str_nat.simps) (simp add: decimal_number_def decimal_value_ascii)
  next
    case False
    with 1 have "decimal_number (map of_char (str_nat (n div 10))) = int (n div 10)" by simp
    moreover have "10 * int (n div 10) + int (n mod 10) = int n"
      by (simp add: zdiv_int zmod_int)
    ultimately show ?thesis using False
      by (subst str_nat.simps) (simp add: decimal_number_snoc decimal_value_ascii)
  qed
qed

lemma str_nat_numeral:
  assumes "length (str_nat n) \<le> int_max_str_digits"
  shows "decimal_numeral (str_nat n) (map of_char (str_nat n))"
proof -
  from str_nat_bytes [of n] have "\<forall>b\<in>set (map of_char (str_nat n) :: nat list). b < 128"
    by auto
  then have "code_points (map of_char (str_nat n)) = Some (map of_char (str_nat n))"
    by (rule code_points_ascii)
  moreover from str_nat_bytes [of n] have "list_all decimal_cp (map of_char (str_nat n))"
    unfolding list_all_iff by (blast intro: decimal_cp_ascii)
  ultimately show ?thesis
    using assms by (simp add: decimal_numeral_def str_nat_nonempty)
qed

lemma getattr_get_network_hashrate:
  "getattr_API ''get_network_hashrate'' = Method M_get_network_hashrate"
  by (simp add: getattr_API_def)

lemma getattr_network_hashrate: "getattr_API ''network_hashrate'' = Absent"
  by (simp add: getattr_API_def)

lemma decimal_numeral_7: "decimal_numeral ''7'' [55]"
  by (simp add: decimal_numeral_def decimal_cp_ascii int_max_str_digits_def)

lemma decimal_number_7: "decimal_number [55] = 7"
  by (simp add: decimal_number_def decimal_value_ascii)

lemma coerce_7: "coerce_arg ''7'' = Inr (JInt 7)"
  using coerce_decimal_numeral [OF decimal_numeral_7] by (simp add: decimal_number_7)

lemma not_isdigit_7DAYS: "\<not> isdigit ''7DAYS''"
  by (simp add: isdigit_def digit_cp_def decimal_runs_def other_digits_def in_run_def)

lemma split_a_b: "split ''a,b'' CHR '','' = [''a'', ''b'']"
  by (simp add: split_def)

lemma coerce_a_b: "coerce_arg ''a'' = Inr (JStr ''a'')" "coerce_arg ''b'' = Inr (JStr ''b'')"
  by (simp_all add: coerce_arg_def isdigit_def digit_cp_def decimal_runs_def other_digits_def
        in_run_def)

lemma intervals_pass_unchanged:
  "\<forall>i\<in>set intervals. i \<noteq> [] \<and> CHR '','' \<notin> set i \<and> \<not> isdigit i"
  by (simp add: intervals_def isdigit_def digit_cp_def decimal_runs_def other_digits_def in_run_def)

lemma isdigit_superscript_two: "isdigit superscript_two"
  by (simp add: superscript_two_def isdigit_def digit_cp_def decimal_runs_def other_digits_def
        in_run_def)

lemma py_int_superscript_two: "py_int superscript_two = Inl ValueError"
  by (simp add: superscript_two_def py_int_def decimal_cp_def decimal_runs_def in_run_def)

lemma isdigit_long_numeral: "isdigit long_numeral"
proof -
  have "code_points (replicate 4301 55) = Some (replicate 4301 55)"
    by (rule code_points_ascii) simp
  moreover have "digit_cp 55"
    by (rule decimal_is_digit) (simp add: decimal_cp_ascii)
  ultimately show ?thesis
    by (simp add: long_numeral_def isdigit_def list_all_iff)
qed

lemma py_int_long_numeral: "py_int long_numeral = Inl ValueError"
proof -
  have "code_points (replicate 4301 55) = Some (replicate 4301 55)"
    by (rule code_points_ascii) simp
  moreover have "decimal_cp 55"
    by (simp add: decimal_cp_ascii)
  ultimately show ?thesis
    by (simp add: long_numeral_def py_int_def list_all_iff int_max_str_digits_def)
qed

text \<open>An argument that passes \<^verbatim>\<open>isdigit\<close> and on which \<^verbatim>\<open>int\<close> raises ends \<open>exec\<close> at once.\<close>

lemma exec_int_fails:
  assumes "getattr_API name = Method func" and "isdigit d" and "py_int d = Inl e"
  shows "exec self (JStr name) (JStr d) w = (Inl e, w)"
proof -
  from assms(2) have "d \<noteq> []" "split d CHR '','' = [d]"
    by (simp_all add: isdigit_nonempty isdigit_no_comma split_no_comma)
  with assms show ?thesis
    by (simp add: coerce_args_single coerce_arg_def)
qed

text \<open>
  C4, as amended. For every name that \<open>exec\<close> resolves to a method: an empty argument
  string calls the method with no arguments; an argument that consists of decimal digits
  only, at most 4300 of them, is passed as the integer it denotes (the decimal numeral of
  \<open>n\<close> as the integer \<open>n\<close>); a non-empty argument without a comma for which
  \<^verbatim>\<open>isdigit\<close> is false is passed unchanged as a string. In general the pieces between
  commas are coerced one by one, and the method is called when no coercion raises.
\<close>

theorem exec_argument_coercion:
  assumes "getattr_API name = Method func"
  shows "exec self (JStr name) (JStr []) w = call self func [] w
       \<and> (decimal_numeral d cps \<longrightarrow>
            exec self (JStr name) (JStr d) w = call self func [JInt (decimal_number cps)] w)
       \<and> (length (str_nat n) \<le> int_max_str_digits \<longrightarrow>
            exec self (JStr name) (JStr (str_nat n)) w = call self func [JInt (int n)] w)
       \<and> (a \<noteq> [] \<and> \<not> isdigit a \<and> CHR '','' \<notin> set a \<longrightarrow>
            exec self (JStr name) (JStr a) w = call self func [JStr a] w)
       \<and> (p \<noteq> [] \<longrightarrow>
            exec self (JStr name) (JStr p) w
            = (case coerce_args (split p CHR '','') of
                 Inl e \<Rightarrow> (Inl e, w)
               | Inr args \<Rightarrow> call self func args w))"
proof -
  have general: "exec self (JStr name) (JStr p) w
            = (case coerce_args (split p CHR '','') of
                 Inl e \<Rightarrow> (Inl e, w)
               | Inr args \<Rightarrow> call self func args w)" if "p \<noteq> []" for p
    using assms that by simp
  have digits: "exec self (JStr name) (JStr d) w = call self func [JInt (decimal_number cps)] w"
    if "decimal_numeral d cps" for d cps
  proof -
    from that have "isdigit d" by (rule decimal_numeral_isdigit)
    then have "d \<noteq> []" "split d CHR '','' = [d]"
      by (simp_all add: isdigit_nonempty isdigit_no_comma split_no_comma)
    with general [of d] coerce_decimal_numeral [OF that] show ?thesis
      by (simp add: coerce_args_single)
  qed
  have "exec self (JStr name) (JStr []) w = call self func [] w"
    using assms by simp
  moreover have "exec self (JStr name) (JStr (str_nat n)) w = call self func [JInt (int n)] w"
    if "length (str_nat n) \<le> int_max_str_digits"
    using digits [OF str_nat_numeral [OF that]] by (simp add: decimal_number_str_nat)
  moreover have "exec self (JStr name) (JStr a) w = call self func [JStr a] w"
    if "a \<noteq> []" "\<not> isdigit a" "CHR '','' \<notin> set a"
    using general [of a] that by (simp add: split_no_comma coerce_args_single coerce_arg_def)
  ultimately show ?thesis using digits general by blast
qed

theorem exec_argument_coercion_witness:
  "getattr_API ''get_network_hashrate'' = Method M_get_network_hashrate
   \<and> exec demo_api (JStr ''get_network_hashrate'') (JStr []) (answering (ok_response JNull))
       = (Inl TypeError, answering (ok_response JNull))
   \<and> decimal_numeral ''7'' [55]
   \<and> exec demo_api (JStr ''get_network_hashrate'') (JStr ''7'') (answering (ok_response JNull))
       = get_network_hashrate demo_api (JInt 7) (answering (ok_response JNull))
   \<and> ''7DAYS'' \<noteq> [] \<and> \<not> isdigit ''7DAYS'' \<and> CHR '','' \<notin> set ''7DAYS''
   \<and> exec demo_api (JStr ''get_network_hashrate'') (JStr ''7DAYS'') (answering (ok_response JNull))
       = get_network_hashrate demo_api (JStr ''7DAYS'') (answering (ok_response JNull))"
  using exec_argument_coercion [OF getattr_get_network_hashrate,
          where self = demo_api and w = "answering (ok_response JNull)" and d = "''7''"
            and cps = "[55]" and a = "''7DAYS''"]
  by (simp add: getattr_get_network_hashrate decimal_numeral_7 decimal_number_7 not_isdigit_7DAYS)

text \<open>
  The claim C4 as first stated fails on arguments that consist of digits only and are not
  passed as an integer. The superscript two is a digit for \<^verbatim>\<open>isdigit\<close> and no decimal digit
  for \<^verbatim>\<open>int\<close>; a numeral of 4301 sevens is longer than \<^verbatim>\<open>int\<close> converts. On both \<^verbatim>\<open>int\<close>
  raises \<^verbatim>\<open>ValueError\<close> and \<open>exec\<close> ends without calling the method.
\<close>

theorem exec_argument_coercion_counterexample:
  "isdigit superscript_two
   \<and> exec demo_api (JStr ''get_network_hashrate'') (JStr superscript_two)
        (answering (ok_response JNull))
      = (Inl ValueError, answering (ok_response JNull))
   \<and> isdigit long_numeral
   \<and> exec demo_api (JStr ''get_network_hashrate'') (JStr long_numeral)
        (answering (ok_response JNull))
      = (Inl ValueError, answering (ok_response JNull))"
  using exec_int_fails [OF getattr_get_network_hashrate isdigit_superscript_two py_int_superscript_two]
    exec_int_fails [OF getattr_get_network_hashrate isdigit_long_numeral py_int_long_numeral]
    isdigit_superscript_two isdigit_long_numeral
  by simp

text \<open>
  C5, as amended. For every interval string that is non-empty, contains no comma and for
  which \<^verbatim>\<open>isdigit\<close> is false, \<open>exec\<close> with the method name \<^verbatim>\<open>get_network_hashrate\<close> and
  that interval as its argument string has the same outcome as \<open>get_network_hashrate\<close>
  called with the interval: the same result and the same world, hence the same outgoing
  request body. The six intervals of the enumeration are such strings.
\<close>

theorem exec_network_hashrate_same_request:
  assumes "interval \<noteq> []" and "CHR '','' \<notin> set interval" and "\<not> isdigit interval"
  shows "exec self (JStr ''get_network_hashrate'') (JStr interval) w
         = get_network_hashrate self (JStr interval) w"
  using assms
  by (simp add: getattr_get_network_hashrate split_no_comma coerce_args_single coerce_arg_def)

theorem exec_network_hashrate_same_request_witness:
  "''_7_DAYS'' \<noteq> [] \<and> CHR '','' \<notin> set ''_7_DAYS'' \<and> \<not> isdigit ''_7_DAYS''
   \<and> exec demo_api (JStr ''get_network_hashrate'') (JStr ''_1_DAY'') (answering (ok_response JNull))
       = get_network_hashrate demo_api (JStr ''_1_DAY'') (answering (ok_response JNull))
   \<and> exec demo_api (JStr ''get_network_hashrate'') (JStr ''_7_DAYS'') (answering (ok_response JNull))
       = get_network_hashrate demo_api (JStr ''_7_DAYS'') (answering (ok_response JNull))
   \<and> exec demo_api (JStr ''get_network_hashrate'') (JStr ''_1_MONTH'') (answering (ok_response JNull))
       = get_network_hashrate demo_api (JStr ''_1_MONTH'') (answering (ok_response JNull))
   \<and> exec demo_api (JStr ''get_network_hashrate'') (JStr ''_3_MONTHS'') (answering (ok_response JNull))
       = get_network_hashrate demo_api (JStr ''_3_MONTHS'') (answering (ok_response JNull))
   \<and> exec demo_api (JStr ''get_network_hashrate'') (JStr ''_1_YEAR'') (answering (ok_response JNull))
       = get_network_hashrate demo_api (JStr ''_1_YEAR'') (answering (ok_response JNull))
   \<and> exec demo_api (JStr ''get_network_hashrate'') (JStr ''ALL'') (answering (ok_response JNull))
       = get_network_hashrate demo_api (JStr ''ALL'') (answering (ok_response JNull))"
proof -
  note ok = intervals_pass_unchanged [unfolded intervals_def, simplified]
  note same = exec_network_hashrate_same_request [of _ demo_api "answering (ok_response JNull)"]
  from ok show ?thesis
    using same [of "''_1_DAY''"] same [of "''_7_DAYS''"] same [of "''_1_MONTH''"]
      same [of "''_3_MONTHS''"] same [of "''_1_YEAR''"] same [of "''ALL''"]
    by simp
qed

text \<open>
  The claim C5 as first stated fails in four ways. With the interval \<^verbatim>\<open>7\<close> the request
  of \<open>exec\<close> carries the integer 7 where the direct call carries the string; with the
  empty interval and with \<^verbatim>\<open>a,b\<close> the method is applied to no argument and to two, a
  \<^verbatim>\<open>TypeError\<close> before any request; and the name \<^verbatim>\<open>network_hashrate\<close> is no attribute of
  the client, so \<open>exec\<close> fails without a request whatever the interval.
\<close>

theorem exec_network_hashrate_counterexample:
  "map rq_data (sent (snd (exec demo_api (JStr ''get_network_hashrate'') (JStr ''7'')
                             (answering (ok_response JNull)))))
     \<noteq> map rq_data (sent (snd (get_network_hashrate demo_api (JStr ''7'')
                             (answering (ok_response JNull)))))
   \<and> map rq_data (sent (snd (exec demo_api (JStr ''get_network_hashrate'') (JStr [])
                             (answering (ok_response JNull)))))
     \<noteq> map rq_data (sent (snd (get_network_hashrate demo_api (JStr [])
                             (answering (ok_response JNull)))))
   \<and> map rq_data (sent (snd (exec demo_api (JStr ''get_network_hashrate'') (JStr ''a,b'')
                             (answering (ok_response JNull)))))
     \<noteq> map rq_data (sent (snd (get_network_hashrate demo_api (JStr ''a,b'')
                             (answering (ok_response JNull)))))
   \<and> map rq_data (sent (snd (exec demo_api (JStr ''network_hashrate'') (JStr ''_7_DAYS'')
                             (answering (ok_response JNull)))))
     \<noteq> map rq_data (sent (snd (get_network_hashrate demo_api (JStr ''_7_DAYS'')
                             (answering (ok_response JNull)))))"
  by (simp add: getattr_get_network_hashrate getattr_network_hashrate split_no_comma
        coerce_args_single coerce_7 split_a_b coerce_a_b
        get_network_hashrate_def request_sends build_request_def answering_def)

section \<open>Extraction and the difficulty chart\<close>

lemma getitem3_present:
  "lookup_path v [a, b, c] = Some x \<Longrightarrow> getitem3 v a b c = Inr x"
  by (auto simp: getitem3_def py_getitem_def split: json.splits option.splits)

lemma getitem3_absent:
  "lookup_path v [a, b, c] = None \<Longrightarrow> \<exists>e. getitem3 v a b c = Inl e \<and> malformed_response e"
  by (auto simp: getitem3_def py_getitem_def malformed_response_def
           split: json.splits option.splits)

lemma lookup_put_path:
  "lookup_path v p \<noteq> None \<Longrightarrow> lookup_path (put_path v p new) p = Some new"
proof (induction v p arbitrary: new rule: lookup_path.induct)
  case (1 v)
  show ?case by simp
next
  case (2 kvs k ks)
  then show ?case by (auto simp: AList.update_conv' split: option.splits)
qed simp_all

lemma delete_is_filter: "AList.delete k kvs = filter (\<lambda>kv. fst kv \<noteq> k) kvs"
  by (induction kvs) auto

lemma py_delitem_has_key: "has_key k r \<Longrightarrow> py_delitem r k = Inr (without_key k r)"
  by (cases r) (auto simp: py_delitem_def delete_is_filter map_of_eq_None_iff split: option.splits)




lemma del_price_loop_all:
  "\<forall>r\<in>set recs. has_key ''price'' r \<Longrightarrow>
   del_price_loop recs = (None, map (without_key ''price'') recs)"
  by (induction recs) (simp_all add: py_delitem_has_key)



lemma without_key_drops: "has_key k r \<Longrightarrow> \<not> has_key k (without_key k r)"
  by (cases r) auto

lemma without_key_keeps: "k' \<noteq> k \<Longrightarrow> field_value (without_key k r) k' = field_value r k'"
proof (cases r)
  case (JObj kvs)
  assume "k' \<noteq> k"
  then have "map_of (filter (\<lambda>kv. fst kv \<noteq> k) kvs) k' = map_of kvs k'"
    by (induction kvs) auto
  with JObj show ?thesis by simp
qed simp_all

lemma strip_price_list:
  assumes "lookup_path env chart_path = Some (JArr recs)"
  shows "strip_price env
         = (fst (del_price_loop recs), put_path env chart_path (JArr (snd (del_price_loop recs))))"
  using getitem3_present [of env "''data''" "''getChartBySlug''" "''data''" "JArr recs"] assms
  by (auto simp: strip_price_def getitem3_def del_price_iter_def chart_path_def
           split: sum.splits prod.splits)

lemma get_network_difficulty_after_request:
  assumes "request self (JStr network_difficulty_query) (network_difficulty_params inputInterval) w
           = (Inr env, w')"
  shows "get_network_difficulty self inputInterval w
         = (case strip_price env of (Some e, _) \<Rightarrow> (Inl e, w') | (None, env') \<Rightarrow> (Inr env', w'))"
  using assms by (simp add: get_network_difficulty_def)

lemma demo_request:
  "request demo_api (JStr network_difficulty_query) (network_difficulty_params (JStr ''ALL''))
     (answering (ok_response env)) = (Inr env, demo_sent (ok_response env))"
  by (simp add: request_def demo_api_def answering_def ok_response_def demo_sent_def)

lemma demo_path: "lookup_path (chart_envelope recs) chart_path = Some (JArr recs)"
  by (simp add: chart_envelope_def chart_path_def)

text \<open>
  C8. For every envelope that lacks the extraction path of an operation, the resolver of
  that operation fails, in list mode and in tabular mode, with the error of the failed
  subscript (\<^verbatim>\<open>KeyError\<close> or \<^verbatim>\<open>TypeError\<close>, the specification's MalformedResponse); it
  returns no value.
\<close>

theorem resolver_missing_path_fails:
  "(lookup_path env [''data'', ''bitcoinOverviews'', ''nodes''] = None \<longrightarrow>
      (\<exists>e. resolve_get_bitcoin_overview rs env = Inl e \<and> malformed_response e))
 \<and> (lookup_path env [''data'', ''getHashprice'', ''nodes''] = None \<longrightarrow>
      (\<exists>e. resolve_get_hashprice rs env = Inl e \<and> malformed_response e))
 \<and> (lookup_path env [''data'', ''getNetworkHashrate'', ''nodes''] = None \<longrightarrow>
      (\<exists>e. resolve_get_network_hashrate rs env = Inl e \<and> malformed_response e))
 \<and> (lookup_path env [''data'', ''getChartBySlug'', ''data''] = None \<longrightarrow>
      (\<exists>e. resolve_get_network_difficulty rs env = Inl e \<and> malformed_response e)
    \<and> (\<exists>e. resolve_get_ohlc_prices rs env = Inl e \<and> malformed_response e)
    \<and> (\<exists>e. resolve_get_asic_price_index rs env = Inl e \<and> malformed_response e))"
proof -
  have "\<exists>e. (case getitem3 env a b c of Inl e \<Rightarrow> Inl e | Inr data \<Rightarrow> Inr (shape rs data)) = Inl e
            \<and> malformed_response e"
    if "lookup_path env [a, b, c] = None" for a b c
    using getitem3_absent [OF that] by auto
  then show ?thesis
    unfolding resolve_get_bitcoin_overview_def resolve_get_hashprice_def
      resolve_get_network_hashrate_def resolve_get_network_difficulty_def
      resolve_get_ohlc_prices_def resolve_get_asic_price_index_def
    by blast
qed

theorem resolver_missing_path_fails_witness:
  "lookup_path (JObj [(''errors'', JArr [JStr ''unauthorized''])])
       [''data'', ''bitcoinOverviews'', ''nodes''] = None
   \<and> resolve_get_bitcoin_overview \<lparr>df = False\<rparr> (JObj [(''errors'', JArr [JStr ''unauthorized''])])
       = Inl (KeyError ''data'')
   \<and> lookup_path (JObj [(''data'', JNull)]) [''data'', ''getHashprice'', ''nodes''] = None
   \<and> resolve_get_hashprice \<lparr>df = True\<rparr> (JObj [(''data'', JNull)]) = Inl TypeError"
  using resolver_missing_path_fails
          [of "JObj [(''errors'', JArr [JStr ''unauthorized''])]" "\<lparr>df = False\<rparr>"]
    resolver_missing_path_fails [of "JObj [(''data'', JNull)]" "\<lparr>df = True\<rparr>"]
  by (simp add: resolve_get_bitcoin_overview_def resolve_get_hashprice_def getitem3_def
        py_getitem_def)

text \<open>
  C7. For every successful network-difficulty response whose payload records each contain
  a \<^verbatim>\<open>price\<close> field, \<open>get_network_difficulty\<close> returns the envelope in which every
  record of the payload has lost \<^verbatim>\<open>price\<close> and kept every other field unchanged, so the
  resolver's output for it has no \<^verbatim>\<open>price\<close> on any record.
\<close>

theorem difficulty_strips_price:
  assumes "request self (JStr network_difficulty_query) (network_difficulty_params inputInterval) w
           = (Inr env, w')"
    and "lookup_path env chart_path = Some (JArr recs)"
    and "\<forall>r\<in>set recs. has_key ''price'' r"
  shows "\<exists>env'. get_network_difficulty self inputInterval w = (Inr env', w')
          \<and> env' = put_path env chart_path (JArr (map (without_key ''price'') recs))
          \<and> resolve_get_network_difficulty rs env'
              = Inr (shape rs (JArr (map (without_key ''price'') recs)))
          \<and> (\<forall>r\<in>set recs. \<not> has_key ''price'' (without_key ''price'' r)
                \<and> (\<forall>k. k \<noteq> ''price'' \<longrightarrow> field_value (without_key ''price'' r) k = field_value r k))"
proof -
  let ?out = "JArr (map (without_key ''price'') recs)"
  let ?env' = "put_path env chart_path ?out"
  from assms(2,3) have strip: "strip_price env = (None, ?env')"
    by (simp add: strip_price_list del_price_loop_all)
  with assms(1) have ret: "get_network_difficulty self inputInterval w = (Inr ?env', w')"
    by (simp add: get_network_difficulty_after_request)
  from assms(2) have "lookup_path ?env' chart_path = Some ?out"
    by (simp add: lookup_put_path)
  then have res: "resolve_get_network_difficulty rs ?env' = Inr (shape rs ?out)"
    by (simp add: resolve_get_network_difficulty_def chart_path_def getitem3_present)
  from assms(3) have "\<forall>r\<in>set recs. \<not> has_key ''price'' (without_key ''price'' r)
                \<and> (\<forall>k. k \<noteq> ''price'' \<longrightarrow> field_value (without_key ''price'' r) k = field_value r k)"
    by (simp add: without_key_drops without_key_keeps)
  with ret res show ?thesis by blast
qed

theorem difficulty_strips_price_witness:
  "request demo_api (JStr network_difficulty_query) (network_difficulty_params (JStr ''ALL''))
     (answering (ok_response (chart_envelope demo_records)))
     = (Inr (chart_envelope demo_records), demo_sent (ok_response (chart_envelope demo_records)))
   \<and> lookup_path (chart_envelope demo_records) chart_path = Some (JArr demo_records)
   \<and> has_key ''price'' (demo_records ! 0) \<and> has_key ''price'' (demo_records ! 1)
   \<and> get_network_difficulty demo_api (JStr ''ALL'')
        (answering (ok_response (chart_envelope demo_records)))
      = (Inr (chart_envelope
               [JObj [(''timestamp'', JStr ''2022-01-01''), (''difficulty'', JInt 24)],
                JObj [(''timestamp'', JStr ''2022-01-02''), (''difficulty'', JInt 25)]]),
         demo_sent (ok_response (chart_envelope demo_records)))
   \<and> resolve_get_network_difficulty \<lparr>df = False\<rparr>
        (chart_envelope
               [JObj [(''timestamp'', JStr ''2022-01-01''), (''difficulty'', JInt 24)],
                JObj [(''timestamp'', JStr ''2022-01-02''), (''difficulty'', JInt 25)]])
      = Inr (Records (JArr
               [JObj [(''timestamp'', JStr ''2022-01-01''), (''difficulty'', JInt 24)],
                JObj [(''timestamp'', JStr ''2022-01-02''), (''difficulty'', JInt 25)]]))"
proof -
  have h3: "\<forall>r\<in>set demo_records. has_key ''price'' r"
    by (simp add: demo_records_def)
  have out: "put_path (chart_envelope demo_records) chart_path
               (JArr (map (without_key ''price'') demo_records))
             = chart_envelope
               [JObj [(''timestamp'', JStr ''2022-01-01''), (''difficulty'', JInt 24)],
                JObj [(''timestamp'', JStr ''2022-01-02''), (''difficulty'', JInt 25)]]"
    by (simp add: chart_envelope_def chart_path_def demo_records_def)
  have sh: "shape \<lparr>df = False\<rparr> x = Records x" for x
    by (simp add: shape_def)
  from difficulty_strips_price [OF demo_request demo_path h3, of "\<lparr>df = False\<rparr>"] out sh
  show ?thesis
    using demo_request demo_path h3 by (auto simp: demo_records_def)
qed



end
